theory Spec2Isabelle
  imports Main
begin

section \<open>Syntax trees read by the transform\<close>

text \<open>
  The transform of \<^verbatim>\<open>src/operations/vue_object.ts\<close> reads ts-morph wrapper nodes of
  the class-style component and builds compiler nodes with the TypeScript factory.
  The nodes it reads are records holding exactly what the code asks of them.
\<close>

text \<open>What \<^verbatim>\<open>getType()\<close> answers to \<^verbatim>\<open>isString()\<close>, \<^verbatim>\<open>isNumber()\<close>, \<^verbatim>\<open>isBoolean()\<close>.\<close>

datatype ts_type = StringType | NumberType | BooleanType | OtherType

definition isString :: "ts_type \<Rightarrow> bool" where
  "isString t = (t = StringType)"

definition isNumber :: "ts_type \<Rightarrow> bool" where
  "isNumber t = (t = NumberType)"

definition isBoolean :: "ts_type \<Rightarrow> bool" where
  "isBoolean t = (t = BooleanType)"

text \<open>
  A JSDoc block: \<^verbatim>\<open>compilerNode.comment\<close> (the description text, absent when the
  block has none) and \<^verbatim>\<open>getFullText()\<close>.
\<close>

record jsdoc =
  comment :: "string option"
  fullText :: string

text \<open>
  The text of an expression of the source file, cut into its literal tokens (string,
  numeric, regular-expression and template literals) and the text around them.
  \<^verbatim>\<open>getText()\<close> gives the pieces one after the other.
\<close>

datatype source_text = LiteralText string | OtherText string

fun pieceText :: "source_text \<Rightarrow> string" where
  "pieceText (LiteralText t) = t"
| "pieceText (OtherText t) = t"

definition getText :: "source_text list \<Rightarrow> string" where
  "getText e = concat (map pieceText e)"

text \<open>
  A property assignment of an object literal in the source file: its name (an
  identifier) and its initializer (\<^verbatim>\<open>getInitializer()\<close>).
\<close>

record property_assignment =
  assignmentName :: string
  assignmentInitializer :: "source_text list option"

text \<open>A decorator: its name and the properties of its object-literal argument, if called with one.\<close>

record decorator =
  decoratorName :: string
  decoratorArgument :: "property_assignment list option"

text \<open>A field declaration of the class.\<close>

record property_declaration =
  fieldName :: string
  fieldType :: ts_type
  fieldTypeNode :: "string option"
  fieldInitializer :: "string option"
  fieldJsDocs :: "jsdoc list"
  fieldDecorators :: "decorator list"

record class_declaration =
  className :: "string option"
  classJsDocs :: "jsdoc list"
  classDecorators :: "decorator list"
  classMembers :: "property_declaration list"

section \<open>Nodes built by the factory\<close>

text \<open>
  The compiler nodes the transform creates. \<open>SourceNode\<close> is the \<^verbatim>\<open>compilerNode\<close> of a
  property assignment taken over from the source file as it is. \<open>LeadingComment\<close> is a
  node with a synthetic leading comment of kind \<^verbatim>\<open>MultiLineCommentTrivia\<close>: the flag is
  \<^verbatim>\<open>hasTrailingNewLine\<close>, the string the comment text between \<^verbatim>\<open>/*\<close> and \<^verbatim>\<open>*/\<close>.
  \<open>MethodDeclaration\<close> keeps the name, the parameters and the body; every other
  argument of \<^verbatim>\<open>createMethodDeclaration\<close> is \<^verbatim>\<open>undefined\<close> in the source.
\<close>

datatype node =
    Identifier string
  | StringLiteral string bool
  | FalseKeyword
  | PropertyAssignment node node
  | ObjectLiteralExpression "node list" bool
  | MethodDeclaration node "node list" node
  | Block "node list" bool
  | ReturnStatement node
  | CallExpression node "node list"
  | SourceNode property_assignment
  | LeadingComment bool string node

section \<open>The source file\<close>

record import_declaration =
  moduleSpecifier :: string
  defaultImport :: "string option"
  namedImports :: "string list"

text \<open>
  An export assignment as \<^verbatim>\<open>addExportAssignment\<close> receives it. The expression is a
  text; the model keeps it as the tree it is the text of (see \<open>printNode\<close> below).
  \<open>leadingTrivia\<close> are the lines the writer callback writes.
\<close>

record export_assignment =
  expression :: node
  isExportEquals :: bool
  leadingTrivia :: "string list"

datatype statement =
    ClassStatement class_declaration
  | ExportAssignment export_assignment
  | OtherStatement string

record source_file =
  importDeclarations :: "import_declaration list"
  statements :: "statement list"

section \<open>The intermediate representation\<close>

text \<open>The object \<^verbatim>\<open>vue_class.extract\<close> returns, as \<^verbatim>\<open>classToObject\<close> reads it.\<close>

record prop_ir =
  propDeclaration :: property_declaration
  propDefault :: "property_assignment option"
  propRequired :: "property_assignment option"

record decorator_ir =
  properties :: "property_assignment list"

record vue_ir =
  vueDeclaration :: class_declaration
  vueDecorator :: decorator_ir
  vueProps :: "prop_ir list"
  vueData :: "property_declaration list"

section \<open>Exceptions\<close>

text \<open>
  The three throwing lookups of ts-morph the transform calls. A computation that may
  throw and may change the file returns the exception or the value, and the file as it
  is at that point.
\<close>

datatype error = NameMissing | TypeNodeMissing | InitializerMissing

type_synonym 'a result = "(error + 'a) \<times> source_file"

definition getNameOrThrow :: "class_declaration \<Rightarrow> error + string" where
  "getNameOrThrow c = (case className c of None \<Rightarrow> Inl NameMissing | Some n \<Rightarrow> Inr n)"

definition getTypeNodeOrThrow :: "property_declaration \<Rightarrow> error + string" where
  "getTypeNodeOrThrow d = (case fieldTypeNode d of None \<Rightarrow> Inl TypeNodeMissing | Some t \<Rightarrow> Inr t)"

definition getInitializerOrThrow :: "'a option \<Rightarrow> error + 'a" where
  "getInitializerOrThrow i = (case i of None \<Rightarrow> Inl InitializerMissing | Some e \<Rightarrow> Inr e)"

section \<open>The import ledger\<close>

text \<open>
  Modelled from the spec: the parts of \<^verbatim>\<open>imports.ensure\<close> of
  \<^verbatim>\<open>src/operations/imports.ts\<close>, which is not among the sources. Section 3 keeps
  "at most one default import per module; named imports deduplicated by name":
  whether a module is imported at all, with a default binding, or with a given named
  binding, and the change of the first import declaration of a module.
\<close>

definition importsDefault :: "string \<Rightarrow> import_declaration \<Rightarrow> bool" where
  "importsDefault m d = (moduleSpecifier d = m \<and> defaultImport d \<noteq> None)"

definition hasDefault :: "import_declaration list \<Rightarrow> string \<Rightarrow> bool" where
  "hasDefault ds m = list_ex (importsDefault m) ds"

definition hasNamed :: "import_declaration list \<Rightarrow> string \<Rightarrow> string \<Rightarrow> bool" where
  "hasNamed ds m n = list_ex (\<lambda>d. moduleSpecifier d = m \<and> n \<in> set (namedImports d)) ds"

definition importsModule :: "import_declaration list \<Rightarrow> string \<Rightarrow> bool" where
  "importsModule ds m = list_ex (\<lambda>d. moduleSpecifier d = m) ds"

fun updateFirst ::
  "string \<Rightarrow> (import_declaration \<Rightarrow> import_declaration) \<Rightarrow> import_declaration list
    \<Rightarrow> import_declaration list" where
  "updateFirst m f [] = []"
| "updateFirst m f (d # ds) =
     (if moduleSpecifier d = m then f d # ds else d # updateFirst m f ds)"

text \<open>
  Modelled from the spec: one requested binding of \<^verbatim>\<open>imports.ensure\<close>, default or
  named. A binding the module already imports is left alone; a missing one joins
  the first import declaration of the module, or a new declaration when the module
  has none.
\<close>

definition ensureDefault :: "import_declaration list \<Rightarrow> string \<Rightarrow> string \<Rightarrow> import_declaration list" where
  "ensureDefault ds m x =
     (if hasDefault ds m then ds
      else if importsModule ds m then updateFirst m (\<lambda>d. d\<lparr>defaultImport := Some x\<rparr>) ds
      else ds @ [\<lparr>moduleSpecifier = m, defaultImport = Some x, namedImports = []\<rparr>])"

definition ensureNamed :: "import_declaration list \<Rightarrow> string \<Rightarrow> string \<Rightarrow> import_declaration list" where
  "ensureNamed ds m n =
     (if hasNamed ds m n then ds
      else if importsModule ds m then updateFirst m (\<lambda>d. d\<lparr>namedImports := namedImports d @ [n]\<rparr>) ds
      else ds @ [\<lparr>moduleSpecifier = m, defaultImport = None, namedImports = [n]\<rparr>])"

text \<open>
  Modelled from the spec: \<^verbatim>\<open>imports.ensure\<close> of the absent \<^verbatim>\<open>imports.ts\<close>. Section 4.1:
  it "guarantees the file's import statements include the requested bindings from
  moduleName without duplicating an existing default or named binding; it never
  removes unrelated imports it wasn't asked about".
\<close>

definition ensure :: "source_file \<Rightarrow> string \<Rightarrow> string option \<Rightarrow> string list \<Rightarrow> source_file" where
  "ensure source m dflt named =
     source\<lparr>importDeclarations :=
       foldl (\<lambda>ds n. ensureNamed ds m n)
         (case dflt of None \<Rightarrow> importDeclarations source
          | Some x \<Rightarrow> ensureDefault (importDeclarations source) m x)
         named\<rparr>"

text \<open>
  Modelled from the spec: the "known decorator-convention modules" of section 4.1,
  of the absent \<^verbatim>\<open>imports.ts\<close>; their names are those of the repository's tests.
\<close>

definition decoratorModules :: "string list" where
  "decoratorModules = [''vue-class-component'', ''vue-property-decorator'']"

text \<open>
  Modelled from the spec: the companion operation of the import ledger, also of the
  absent \<^verbatim>\<open>imports.ts\<close>. Section 4.1: it "removes all import statements sourced from a
  set of known decorator-convention modules, collapsing them into a single default
  import from the base framework module (added only if no default import from that
  module already exists)". The binding \<^verbatim>\<open>Vue\<close> of module \<^verbatim>\<open>vue\<close> is that of the
  repository's tests.
\<close>

definition collapseDecoratorImports :: "source_file \<Rightarrow> source_file" where
  "collapseDecoratorImports source =
     ensure
       (source\<lparr>importDeclarations :=
          filter (\<lambda>d. moduleSpecifier d \<notin> set decoratorModules) (importDeclarations source)\<rparr>)
       ''vue'' (Some ''Vue'') []"

text \<open>The number of import declarations of a file that import module \<open>m\<close> by default.\<close>

definition defaultImportCount :: "source_file \<Rightarrow> string \<Rightarrow> nat" where
  "defaultImportCount source m = length (filter (importsDefault m) (importDeclarations source))"

section \<open>The class extractor\<close>

text \<open>
  Modelled from the spec: the parts of \<^verbatim>\<open>vue_class.extract\<close> of
  \<^verbatim>\<open>src/operations/vue_class.ts\<close>, which is not among the sources. Section 4.2, step 1:
  "the first class carrying the component decorator (bare or called with an
  object-literal argument)"; step 2: the properties of the object-literal argument
  of a decorator, none when it is bare; step 3: a field "annotated with the
  input-field decorator", with the \<^verbatim>\<open>default\<close> and \<^verbatim>\<open>required\<close> assignments of that
  decorator's argument. The decorators are \<^verbatim>\<open>Component\<close> and \<^verbatim>\<open>Prop\<close>, as in the
  repository's tests.
\<close>

definition isComponentClass :: "class_declaration \<Rightarrow> bool" where
  "isComponentClass c = list_ex (\<lambda>d. decoratorName d = ''Component'') (classDecorators c)"

fun findComponentClass :: "statement list \<Rightarrow> class_declaration option" where
  "findComponentClass [] = None"
| "findComponentClass (ClassStatement c # ss) =
     (if isComponentClass c then Some c else findComponentClass ss)"
| "findComponentClass (_ # ss) = findComponentClass ss"

definition decoratorConfig :: "string \<Rightarrow> decorator list \<Rightarrow> property_assignment list" where
  "decoratorConfig n ds =
     (case find (\<lambda>d. decoratorName d = n) ds of
        None \<Rightarrow> []
      | Some d \<Rightarrow> (case decoratorArgument d of None \<Rightarrow> [] | Some ps \<Rightarrow> ps))"

definition isInputField :: "property_declaration \<Rightarrow> bool" where
  "isInputField d = list_ex (\<lambda>x. decoratorName x = ''Prop'') (fieldDecorators d)"

definition inputField :: "property_declaration \<Rightarrow> prop_ir" where
  "inputField d =
     \<lparr>propDeclaration = d,
      propDefault = find (\<lambda>p. assignmentName p = ''default'') (decoratorConfig ''Prop'' (fieldDecorators d)),
      propRequired = find (\<lambda>p. assignmentName p = ''required'') (decoratorConfig ''Prop'' (fieldDecorators d))\<rparr>"

text \<open>
  Modelled from the spec: \<^verbatim>\<open>vue_class.extract\<close> of the absent \<^verbatim>\<open>vue_class.ts\<close>.
  Section 4.2: the first class carrying the component decorator, or absent; the
  properties of the decorator's object-literal argument in their order; each field
  with the input-field decorator as an input field; each other field with an
  initializer as a state field; every other field skipped.
\<close>

definition vue_class_extract :: "source_file \<Rightarrow> vue_ir option" where
  "vue_class_extract source =
     (case findComponentClass (statements source) of
        None \<Rightarrow> None
      | Some c \<Rightarrow>
          Some \<lparr>vueDeclaration = c,
                vueDecorator = \<lparr>properties = decoratorConfig ''Component'' (classDecorators c)\<rparr>,
                vueProps = map inputField (filter isInputField (classMembers c)),
                vueData = filter (\<lambda>d. \<not> isInputField d \<and> fieldInitializer d \<noteq> None) (classMembers c)\<rparr>)"

section \<open>The object synthesizer\<close>

text \<open>JavaScript's \<^verbatim>\<open>split('\n')\<close> and \<^verbatim>\<open>join('\n')\<close>.\<close>

fun splitLines :: "string \<Rightarrow> string list" where
  "splitLines [] = [[]]"
| "splitLines (c # cs) =
     (if c = CHR 0x0A then [] # splitLines cs
      else (case splitLines cs of [] \<Rightarrow> [[c]] | l # ls \<Rightarrow> (c # l) # ls))"

fun joinLines :: "string list \<Rightarrow> string" where
  "joinLines [] = []"
| "joinLines [l] = l"
| "joinLines (l # ls) = l @ [CHR 0x0A] @ joinLines ls"

definition commentText :: "string \<Rightarrow> string" where
  "commentText c =
     ''*'' @ [CHR 0x0A] @ joinLines (map (\<lambda>line. '' * '' @ line) (splitLines c)) @ [CHR 0x0A] @ '' ''"

text \<open>
  \<^verbatim>\<open>createDocumentation\<close>: only the first JSDoc block is read, and \<^verbatim>\<open>if (comment)\<close> is
  false for an absent and for an empty description.
\<close>

definition createDocumentation :: "node \<Rightarrow> jsdoc list \<Rightarrow> node" where
  "createDocumentation target docs =
     (case docs of
        [] \<Rightarrow> target
      | doc # _ \<Rightarrow>
          (case comment doc of
             None \<Rightarrow> target
           | Some c \<Rightarrow> if c \<noteq> [] then LeadingComment True (commentText c) target else target))"

definition classNameToPropName :: "source_file \<Rightarrow> vue_ir \<Rightarrow> error + node" where
  "classNameToPropName source vue =
     (case getNameOrThrow (vueDeclaration vue) of
        Inl e \<Rightarrow> Inl e
      | Inr n \<Rightarrow> Inr (PropertyAssignment (Identifier ''name'') (StringLiteral n True)))"

definition classPropTypeToObjectPropType :: "source_file \<Rightarrow> prop_ir \<Rightarrow> node result" where
  "classPropTypeToObjectPropType source prop =
     (let type = fieldType (propDeclaration prop) in
      if isString type then
        (Inr (PropertyAssignment (Identifier ''type'') (Identifier ''String'')), source)
      else if isNumber type then
        (Inr (PropertyAssignment (Identifier ''type'') (Identifier ''Number'')), source)
      else if isBoolean type then
        (Inr (PropertyAssignment (Identifier ''type'') (Identifier ''Boolean'')), source)
      else
        (let source' = ensure source ''vue'' None [''PropType''] in
         case getTypeNodeOrThrow (propDeclaration prop) of
           Inl e \<Rightarrow> (Inl e, source')
         | Inr t \<Rightarrow>
             (Inr (PropertyAssignment (Identifier ''type'')
                     (Identifier (''Object as PropType<'' @ t @ ''>''))), source')))"

definition classPropOptionsToObjectPropOptions :: "source_file \<Rightarrow> prop_ir \<Rightarrow> error + node list" where
  "classPropOptionsToObjectPropOptions source prop =
     (case propDefault prop of
        Some d \<Rightarrow>
          (case getInitializerOrThrow (assignmentInitializer d) of
             Inl e \<Rightarrow> Inl e
           | Inr initializer \<Rightarrow>
               Inr [PropertyAssignment (Identifier ''default'') (Identifier (getText initializer))])
      | None \<Rightarrow>
          (case propRequired prop of
             Some r \<Rightarrow> Inr [SourceNode r]
           | None \<Rightarrow> Inr [PropertyAssignment (Identifier ''required'') FalseKeyword]))"

definition classPropToObjectProp :: "source_file \<Rightarrow> prop_ir \<Rightarrow> node result" where
  "classPropToObjectProp source prop =
     (case classPropTypeToObjectPropType source prop of
        (Inl e, source') \<Rightarrow> (Inl e, source')
      | (Inr type, source') \<Rightarrow>
          (case classPropOptionsToObjectPropOptions source' prop of
             Inl e \<Rightarrow> (Inl e, source')
           | Inr options \<Rightarrow>
               (Inr (createDocumentation
                       (PropertyAssignment (Identifier (fieldName (propDeclaration prop)))
                          (ObjectLiteralExpression (type # options) True))
                       (fieldJsDocs (propDeclaration prop))),
                source')))"

text \<open>\<^verbatim>\<open>vue.props.map(prop => classPropToObjectProp(source, prop))\<close>, left to right.\<close>

fun mapProps :: "source_file \<Rightarrow> prop_ir list \<Rightarrow> node list result" where
  "mapProps source [] = (Inr [], source)"
| "mapProps source (prop # rest) =
     (case classPropToObjectProp source prop of
        (Inl e, source') \<Rightarrow> (Inl e, source')
      | (Inr n, source') \<Rightarrow>
          (case mapProps source' rest of
             (Inl e, source'') \<Rightarrow> (Inl e, source'')
           | (Inr ns, source'') \<Rightarrow> (Inr (n # ns), source'')))"

definition classPropsToObjectProps :: "source_file \<Rightarrow> vue_ir \<Rightarrow> node result" where
  "classPropsToObjectProps source vue =
     (case mapProps source (vueProps vue) of
        (Inl e, source') \<Rightarrow> (Inl e, source')
      | (Inr ns, source') \<Rightarrow>
          (Inr (PropertyAssignment (Identifier ''props'') (ObjectLiteralExpression ns True)), source'))"

text \<open>
  One turn of the loop of \<^verbatim>\<open>classDataToObjectData\<close>, and the loop. The factory
  makes the identifier of the property from the string \<^verbatim>\<open>declaration.getName()\<close>.
\<close>

definition dataProperty :: "property_declaration \<Rightarrow> error + node" where
  "dataProperty declaration =
     (case getInitializerOrThrow (fieldInitializer declaration) of
        Inl e \<Rightarrow> Inl e
      | Inr v \<Rightarrow>
          (let initializer =
                 (case fieldTypeNode declaration of
                    None \<Rightarrow> Identifier v
                  | Some t \<Rightarrow> Identifier (v @ '' as '' @ t))
           in Inr (createDocumentation
                     (PropertyAssignment (Identifier (fieldName declaration)) initializer)
                     (fieldJsDocs declaration))))"

fun dataProperties :: "property_declaration list \<Rightarrow> error + node list" where
  "dataProperties [] = Inr []"
| "dataProperties (declaration # rest) =
     (case dataProperty declaration of
        Inl e \<Rightarrow> Inl e
      | Inr p \<Rightarrow> (case dataProperties rest of Inl e \<Rightarrow> Inl e | Inr ps \<Rightarrow> Inr (p # ps)))"

definition classDataToObjectData :: "source_file \<Rightarrow> vue_ir \<Rightarrow> error + node" where
  "classDataToObjectData source vue =
     (case dataProperties (vueData vue) of
        Inl e \<Rightarrow> Inl e
      | Inr ps \<Rightarrow>
          Inr (MethodDeclaration (Identifier ''data'') []
                 (Block [ReturnStatement (ObjectLiteralExpression ps True)] True)))"

text \<open>
  \<^verbatim>\<open>printNode(component)\<close> of ts-morph. The text it returns is kept as the tree it
  is the text of, token for token; the printer's own line breaks and indentation are
  not modelled. \<^verbatim>\<open>component\<close> has no parent, so ts-morph prints it against a new,
  empty file \<^verbatim>\<open>print.ts\<close>. A node made by the factory is printed from its own
  fields. Of a node parsed from the source file, identifiers, keywords and punctuation
  are printed from the node, but the text of a literal token is read by its position
  from the print file (\<^verbatim>\<open>getLiteralText\<close> with \<^verbatim>\<open>canUseOriginalText\<close> in the
  TypeScript emitter), where there is none: the literal is printed as the empty text.
\<close>

fun printPiece :: "source_text \<Rightarrow> source_text" where
  "printPiece (LiteralText t) = LiteralText []"
| "printPiece (OtherText t) = OtherText t"

definition printSourceNode :: "property_assignment \<Rightarrow> property_assignment" where
  "printSourceNode p =
     p\<lparr>assignmentInitializer := map_option (map printPiece) (assignmentInitializer p)\<rparr>"

fun printNode :: "node \<Rightarrow> node" where
  "printNode (Identifier s) = Identifier s"
| "printNode (StringLiteral s q) = StringLiteral s q"
| "printNode FalseKeyword = FalseKeyword"
| "printNode (PropertyAssignment n v) = PropertyAssignment (printNode n) (printNode v)"
| "printNode (ObjectLiteralExpression es m) = ObjectLiteralExpression (map printNode es) m"
| "printNode (MethodDeclaration n ps b) = MethodDeclaration (printNode n) (map printNode ps) (printNode b)"
| "printNode (Block ss m) = Block (map printNode ss) m"
| "printNode (ReturnStatement e) = ReturnStatement (printNode e)"
| "printNode (CallExpression f args) = CallExpression (printNode f) (map printNode args)"
| "printNode (SourceNode p) = SourceNode (printSourceNode p)"
| "printNode (LeadingComment nl c n) = LeadingComment nl c (printNode n)"

text \<open>
  The file operations of ts-morph that \<^verbatim>\<open>classToObject\<close> ends with:
  \<^verbatim>\<open>remove()\<close> takes the class declaration out of the statements,
  \<^verbatim>\<open>addExportAssignment\<close> puts the new statement after the last one.
  \<^verbatim>\<open>formatText\<close> changes the layout of the text only; the model holds syntax trees
  and no layout, so it leaves the model's file as it is.
\<close>

definition removeDeclaration :: "class_declaration \<Rightarrow> source_file \<Rightarrow> source_file" where
  "removeDeclaration c source = source\<lparr>statements := remove1 (ClassStatement c) (statements source)\<rparr>"

definition addExportAssignment :: "export_assignment \<Rightarrow> source_file \<Rightarrow> source_file" where
  "addExportAssignment e source = source\<lparr>statements := statements source @ [ExportAssignment e]\<rparr>"

definition formatText :: "source_file \<Rightarrow> source_file" where
  "formatText source = source"

text \<open>
  \<^verbatim>\<open>documentation\<close> stays \<^verbatim>\<open>undefined\<close> without JSDoc; the writer callback tests
  \<^verbatim>\<open>if (documentation)\<close>, false for \<^verbatim>\<open>undefined\<close> and for the empty string.
\<close>

definition classDocumentation :: "class_declaration \<Rightarrow> string list" where
  "classDocumentation c =
     (case classJsDocs c of
        [] \<Rightarrow> []
      | doc # _ \<Rightarrow> if fullText doc \<noteq> [] then [fullText doc] else [])"

text \<open>
  \<^verbatim>\<open>classToObject\<close>. The extractor is a parameter: \<^verbatim>\<open>vue_class.extract\<close> is not
  among the sources.
\<close>

definition classToObject :: "(source_file \<Rightarrow> vue_ir option) \<Rightarrow> source_file \<Rightarrow> unit result" where
  "classToObject extractor source =
     (case extractor source of
        None \<Rightarrow> (Inr (), source)
      | Some vue \<Rightarrow>
          (case classNameToPropName source vue of
             Inl e \<Rightarrow> (Inl e, source)
           | Inr name \<Rightarrow>
               (let properties1 = name # map SourceNode (properties (vueDecorator vue)) in
                case (if length (vueProps vue) > 0
                      then (case classPropsToObjectProps source vue of
                              (Inl e, s) \<Rightarrow> (Inl e, s)
                            | (Inr p, s) \<Rightarrow> (Inr (properties1 @ [p]), s))
                      else (Inr properties1, source)) of
                  (Inl e, source1) \<Rightarrow> (Inl e, source1)
                | (Inr properties2, source1) \<Rightarrow>
                    (case (if length (vueData vue) > 0
                           then (case classDataToObjectData source1 vue of
                                   Inl e \<Rightarrow> Inl e
                                 | Inr d \<Rightarrow> Inr (properties2 @ [d]))
                           else Inr properties2) of
                       Inl e \<Rightarrow> (Inl e, source1)
                     | Inr properties3 \<Rightarrow>
                         (let component =
                                CallExpression (Identifier ''Vue.extend'')
                                  [ObjectLiteralExpression properties3 True];
                              documentation = classDocumentation (vueDeclaration vue);
                              source2 = removeDeclaration (vueDeclaration vue) source1;
                              source3 =
                                addExportAssignment
                                  \<lparr>expression = printNode component, isExportEquals = False,
                                   leadingTrivia = documentation\<rparr>
                                  source2
                          in (Inr (), formatText source3))))))"

section \<open>Reading the result\<close>

text \<open>
  The key of an element of an object literal, through a leading comment, and the
  elements of the object literal that the last statement of a file exports through
  a call expression, as they are printed. The statements below read the synthesized
  object with them.
\<close>

fun entryName :: "node \<Rightarrow> string option" where
  "entryName (PropertyAssignment (Identifier n) v) = Some n"
| "entryName (MethodDeclaration (Identifier n) ps b) = Some n"
| "entryName (SourceNode p) = Some (assignmentName p)"
| "entryName (LeadingComment nl c n) = entryName n"
| "entryName _ = None"

text \<open>A node built by the factory alone, with no node of the source file in it.\<close>

fun fromFactory :: "node \<Rightarrow> bool" where
  "fromFactory (Identifier s) = True"
| "fromFactory (StringLiteral s q) = True"
| "fromFactory FalseKeyword = True"
| "fromFactory (PropertyAssignment n v) = (fromFactory n \<and> fromFactory v)"
| "fromFactory (ObjectLiteralExpression es m) = list_all fromFactory es"
| "fromFactory (MethodDeclaration n ps b) = (fromFactory n \<and> list_all fromFactory ps \<and> fromFactory b)"
| "fromFactory (Block ss m) = list_all fromFactory ss"
| "fromFactory (ReturnStatement e) = fromFactory e"
| "fromFactory (CallExpression f args) = (fromFactory f \<and> list_all fromFactory args)"
| "fromFactory (SourceNode p) = False"
| "fromFactory (LeadingComment nl c n) = fromFactory n"

fun objectEntries :: "node \<Rightarrow> node list" where
  "objectEntries (CallExpression f [ObjectLiteralExpression es m]) = es"
| "objectEntries _ = []"

definition exportedEntries :: "source_file \<Rightarrow> node list" where
  "exportedEntries source =
     (case rev (statements source) of
        ExportAssignment e # _ \<Rightarrow> objectEntries (expression e)
      | _ \<Rightarrow> [])"

section \<open>Preconditions of the synthesizer\<close>

text \<open>
  What the synthesizer expects of the intermediate representation: an input field
  whose type is none of string, number and boolean has a type annotation, a supplied
  \<^verbatim>\<open>default\<close> option has an initializer, a state field has an initializer, and the
  class has a name.
\<close>

definition propPrecondition :: "prop_ir \<Rightarrow> bool" where
  "propPrecondition prop =
     ((\<not> isString (fieldType (propDeclaration prop)) \<and> \<not> isNumber (fieldType (propDeclaration prop))
        \<and> \<not> isBoolean (fieldType (propDeclaration prop))
        \<longrightarrow> fieldTypeNode (propDeclaration prop) \<noteq> None)
      \<and> (case propDefault prop of None \<Rightarrow> True | Some d \<Rightarrow> assignmentInitializer d \<noteq> None))"

definition synthesisPreconditions :: "vue_ir \<Rightarrow> bool" where
  "synthesisPreconditions vue =
     (list_all propPrecondition (vueProps vue)
      \<and> list_all (\<lambda>d. fieldInitializer d \<noteq> None) (vueData vue)
      \<and> className (vueDeclaration vue) \<noteq> None)"

text \<open>The entry of the \<^verbatim>\<open>data\<close> object for a state field that has its initializer.\<close>

definition dataEntry :: "property_declaration \<Rightarrow> node" where
  "dataEntry d =
     createDocumentation
       (PropertyAssignment (Identifier (fieldName d))
          (Identifier (case fieldTypeNode d of
                         None \<Rightarrow> the (fieldInitializer d)
                       | Some t \<Rightarrow> the (fieldInitializer d) @ '' as '' @ t)))
       (fieldJsDocs d)"

text \<open>
  The entries of the decorator's configuration, as they are printed, stand at the head
  of the object literal, every synthesized entry after them.
\<close>

definition appendedAfterConfig :: "property_assignment list \<Rightarrow> node list \<Rightarrow> bool" where
  "appendedAfterConfig config entries =
     (take (length config) entries = map (\<lambda>p. SourceNode (printSourceNode p)) config)"

text \<open>The statements of a file that are classes carrying the component decorator.\<close>

fun isComponentStatement :: "statement \<Rightarrow> bool" where
  "isComponentStatement (ClassStatement c) = isComponentClass c"
| "isComponentStatement _ = False"

definition componentClassCount :: "source_file \<Rightarrow> nat" where
  "componentClassCount source = length (filter isComponentStatement (statements source))"

section \<open>Example components\<close>

text \<open>
  The component of the repository's test \<^verbatim>\<open>converts @Prop-decorated fields to props\<close>,
  with documentation, an inline configuration and two state fields added:
  \<^verbatim>\<open>
  /** A widget. */
  @Component({ components: { Other } })
  export default class Widget extends Vue {
    @Prop() message?: string
    @Prop({ required: true }) count!: number
    /** The response.
      * Set by the caller. */
    @Prop() response!: Response
    @Prop({ required: true, default: () => noop }) onClick!: () => Promise<void>
    /** Clicks so far. */
    counter: number = 0
    open = false
  }
  \<close>
\<close>

definition exampleMessage :: property_declaration where
  "exampleMessage =
     \<lparr>fieldName = ''message'', fieldType = StringType, fieldTypeNode = Some ''string'',
      fieldInitializer = None, fieldJsDocs = [],
      fieldDecorators = [\<lparr>decoratorName = ''Prop'', decoratorArgument = None\<rparr>]\<rparr>"

definition exampleCount :: property_declaration where
  "exampleCount =
     \<lparr>fieldName = ''count'', fieldType = NumberType, fieldTypeNode = Some ''number'',
      fieldInitializer = None, fieldJsDocs = [],
      fieldDecorators =
        [\<lparr>decoratorName = ''Prop'',
          decoratorArgument =
            Some [\<lparr>assignmentName = ''required'', assignmentInitializer = Some [OtherText ''true'']\<rparr>]\<rparr>]\<rparr>"

definition exampleResponse :: property_declaration where
  "exampleResponse =
     \<lparr>fieldName = ''response'', fieldType = OtherType, fieldTypeNode = Some ''Response'',
      fieldInitializer = None,
      fieldJsDocs =
        [\<lparr>comment = Some (''The response.'' @ [CHR 0x0A] @ ''Set by the caller.''),
          fullText = ''/** The response. Set by the caller. */''\<rparr>],
      fieldDecorators = [\<lparr>decoratorName = ''Prop'', decoratorArgument = None\<rparr>]\<rparr>"

definition exampleOnClick :: property_declaration where
  "exampleOnClick =
     \<lparr>fieldName = ''onClick'', fieldType = OtherType, fieldTypeNode = Some ''() => Promise<void>'',
      fieldInitializer = None, fieldJsDocs = [],
      fieldDecorators =
        [\<lparr>decoratorName = ''Prop'',
          decoratorArgument =
            Some [\<lparr>assignmentName = ''required'', assignmentInitializer = Some [OtherText ''true'']\<rparr>,
                  \<lparr>assignmentName = ''default'', assignmentInitializer = Some [OtherText ''() => noop'']\<rparr>]\<rparr>]\<rparr>"

definition exampleCounter :: property_declaration where
  "exampleCounter =
     \<lparr>fieldName = ''counter'', fieldType = NumberType, fieldTypeNode = Some ''number'',
      fieldInitializer = Some ''0'',
      fieldJsDocs = [\<lparr>comment = Some ''Clicks so far.'', fullText = ''/** Clicks so far. */''\<rparr>],
      fieldDecorators = []\<rparr>"

definition exampleOpen :: property_declaration where
  "exampleOpen =
     \<lparr>fieldName = ''open'', fieldType = BooleanType, fieldTypeNode = None,
      fieldInitializer = Some ''false'', fieldJsDocs = [], fieldDecorators = []\<rparr>"

definition exampleClass :: class_declaration where
  "exampleClass =
     \<lparr>className = Some ''Widget'',
      classJsDocs = [\<lparr>comment = Some ''A widget.'', fullText = ''/** A widget. */''\<rparr>],
      classDecorators =
        [\<lparr>decoratorName = ''Component'',
          decoratorArgument =
            Some [\<lparr>assignmentName = ''components'', assignmentInitializer = Some [OtherText ''{ Other }'']\<rparr>]\<rparr>],
      classMembers = [exampleMessage, exampleCount, exampleResponse, exampleOnClick, exampleCounter, exampleOpen]\<rparr>"

definition exampleSource :: source_file where
  "exampleSource = \<lparr>importDeclarations = [], statements = [ClassStatement exampleClass]\<rparr>"

definition messageProp :: prop_ir where
  "messageProp = \<lparr>propDeclaration = exampleMessage, propDefault = None, propRequired = None\<rparr>"

definition countProp :: prop_ir where
  "countProp =
     \<lparr>propDeclaration = exampleCount, propDefault = None,
      propRequired = Some \<lparr>assignmentName = ''required'', assignmentInitializer = Some [OtherText ''true'']\<rparr>\<rparr>"

definition responseProp :: prop_ir where
  "responseProp = \<lparr>propDeclaration = exampleResponse, propDefault = None, propRequired = None\<rparr>"

definition onClickProp :: prop_ir where
  "onClickProp =
     \<lparr>propDeclaration = exampleOnClick,
      propDefault = Some \<lparr>assignmentName = ''default'', assignmentInitializer = Some [OtherText ''() => noop'']\<rparr>,
      propRequired = Some \<lparr>assignmentName = ''required'', assignmentInitializer = Some [OtherText ''true'']\<rparr>\<rparr>"


definition exampleVue :: vue_ir where
  "exampleVue =
     \<lparr>vueDeclaration = exampleClass,
      vueDecorator =
        \<lparr>properties = [\<lparr>assignmentName = ''components'', assignmentInitializer = Some [OtherText ''{ Other }'']\<rparr>]\<rparr>,
      vueProps = [messageProp, countProp, responseProp, onClickProp],
      vueData = [exampleCounter, exampleOpen]\<rparr>"

text \<open>
  A component whose configuration names the component itself:
  \<^verbatim>\<open>@Component({ name: otherName }) export default class Widget extends Vue {}\<close>.
\<close>

definition collisionVue :: vue_ir where
  "collisionVue =
     \<lparr>vueDeclaration =
        \<lparr>className = Some ''Widget'', classJsDocs = [],
         classDecorators =
           [\<lparr>decoratorName = ''Component'',
             decoratorArgument =
               Some [\<lparr>assignmentName = ''name'', assignmentInitializer = Some [OtherText ''otherName'']\<rparr>]\<rparr>],
         classMembers = []\<rparr>,
      vueDecorator =
        \<lparr>properties = [\<lparr>assignmentName = ''name'', assignmentInitializer = Some [OtherText ''otherName'']\<rparr>]\<rparr>,
      vueProps = [], vueData = []\<rparr>"

definition collisionSource :: source_file where
  "collisionSource =
     \<lparr>importDeclarations = [], statements = [ClassStatement (vueDeclaration collisionVue)]\<rparr>"

text \<open>
  A class expression without a name, \<^verbatim>\<open>@Component export default class extends Vue {}\<close>,
  and an input field with an inferred type that is no primitive,
  \<^verbatim>\<open>@Prop() options = makeOptions()\<close>.
\<close>

definition namelessVue :: vue_ir where
  "namelessVue =
     \<lparr>vueDeclaration =
        \<lparr>className = None, classJsDocs = [],
         classDecorators = [\<lparr>decoratorName = ''Component'', decoratorArgument = None\<rparr>],
         classMembers = []\<rparr>,
      vueDecorator = \<lparr>properties = []\<rparr>, vueProps = [], vueData = []\<rparr>"

definition untypedVue :: vue_ir where
  "untypedVue =
     \<lparr>vueDeclaration =
        \<lparr>className = Some ''Widget'', classJsDocs = [],
         classDecorators = [\<lparr>decoratorName = ''Component'', decoratorArgument = None\<rparr>],
         classMembers =
           [\<lparr>fieldName = ''options'', fieldType = OtherType, fieldTypeNode = None,
             fieldInitializer = Some ''makeOptions()'', fieldJsDocs = [],
             fieldDecorators = [\<lparr>decoratorName = ''Prop'', decoratorArgument = None\<rparr>]\<rparr>]\<rparr>,
      vueDecorator = \<lparr>properties = []\<rparr>,
      vueProps =
        [\<lparr>propDeclaration =
            \<lparr>fieldName = ''options'', fieldType = OtherType, fieldTypeNode = None,
             fieldInitializer = Some ''makeOptions()'', fieldJsDocs = [],
             fieldDecorators = [\<lparr>decoratorName = ''Prop'', decoratorArgument = None\<rparr>]\<rparr>,
          propDefault = None, propRequired = None\<rparr>],
      vueData = []\<rparr>"

text \<open>
  The imports of the repository's tests \<^verbatim>\<open>removes class-based component library imports\<close>
  and \<^verbatim>\<open>only adds the Vue import if necessary\<close>.
\<close>

definition decoratorImportsSource :: source_file where
  "decoratorImportsSource =
     \<lparr>importDeclarations =
        [\<lparr>moduleSpecifier = ''vue-class-component'', defaultImport = None,
          namedImports = [''Component'', ''Vue'']\<rparr>,
         \<lparr>moduleSpecifier = ''vue-property-decorator'', defaultImport = None,
          namedImports = [''Component'', ''Prop'', ''Vue'']\<rparr>],
      statements = []\<rparr>"

definition vueImportSource :: source_file where
  "vueImportSource =
     \<lparr>importDeclarations =
        [\<lparr>moduleSpecifier = ''vue'', defaultImport = Some ''Vue'', namedImports = []\<rparr>],
      statements = []\<rparr>"

text \<open>A file with two decorated component classes, \<^verbatim>\<open>Widget\<close> and \<^verbatim>\<open>Gadget\<close>.\<close>

definition secondClass :: class_declaration where
  "secondClass =
     \<lparr>className = Some ''Gadget'', classJsDocs = [],
      classDecorators = [\<lparr>decoratorName = ''Component'', decoratorArgument = None\<rparr>],
      classMembers = []\<rparr>"

definition twoClassSource :: source_file where
  "twoClassSource =
     \<lparr>importDeclarations = [],
      statements = [ClassStatement (vueDeclaration collisionVue), ClassStatement secondClass]\<rparr>"

text \<open>
  A component whose configuration holds a string literal:
  \<^verbatim>\<open>@Component({ template: '<div/>', components: { Other } }) export default class Widget extends Vue {}\<close>.
\<close>

definition literalVue :: vue_ir where
  "literalVue =
     \<lparr>vueDeclaration =
        \<lparr>className = Some ''Widget'', classJsDocs = [],
         classDecorators =
           [\<lparr>decoratorName = ''Component'',
             decoratorArgument =
               Some [\<lparr>assignmentName = ''template'',
                      assignmentInitializer = Some [LiteralText ([CHR 0x27] @ ''<div/>'' @ [CHR 0x27])]\<rparr>,
                     \<lparr>assignmentName = ''components'',
                      assignmentInitializer = Some [OtherText ''{ Other }'']\<rparr>]\<rparr>],
         classMembers = []\<rparr>,
      vueDecorator =
        \<lparr>properties =
           [\<lparr>assignmentName = ''template'',
             assignmentInitializer = Some [LiteralText ([CHR 0x27] @ ''<div/>'' @ [CHR 0x27])]\<rparr>,
            \<lparr>assignmentName = ''components'',
             assignmentInitializer = Some [OtherText ''{ Other }'']\<rparr>]\<rparr>,
      vueProps = [], vueData = []\<rparr>"

definition literalSource :: source_file where
  "literalSource =
     \<lparr>importDeclarations = [], statements = [ClassStatement (vueDeclaration literalVue)]\<rparr>"




section \<open>Evaluating the examples\<close>

lemmas prop_defs = messageProp_def countProp_def responseProp_def onClickProp_def

lemmas example_defs = exampleMessage_def exampleCount_def exampleResponse_def exampleOnClick_def
  exampleCounter_def exampleOpen_def exampleClass_def exampleSource_def exampleVue_def prop_defs

lemmas synth_defs = classToObject_def classNameToPropName_def getNameOrThrow_def
  classPropsToObjectProps_def classPropToObjectProp_def classPropTypeToObjectPropType_def
  classPropOptionsToObjectPropOptions_def classDataToObjectData_def dataProperty_def
  getTypeNodeOrThrow_def getInitializerOrThrow_def createDocumentation_def getText_def
  printSourceNode_def
  isString_def isNumber_def isBoolean_def ensure_def ensureNamed_def hasNamed_def importsModule_def
  removeDeclaration_def addExportAssignment_def formatText_def classDocumentation_def Let_def

lemmas import_defs = collapseDecoratorImports_def ensure_def ensureDefault_def ensureNamed_def
  hasDefault_def hasNamed_def importsModule_def importsDefault_def decoratorModules_def
  defaultImportCount_def

lemmas extract_defs = vue_class_extract_def isComponentClass_def decoratorConfig_def
  isInputField_def inputField_def

lemma example_extractor: "(\<lambda>s. Some exampleVue) exampleSource = Some exampleVue"
  by simp

section \<open>Lines of a comment\<close>

lemma splitLines_not_Nil: "splitLines s \<noteq> []"
  by (induction s) (auto split: list.splits)

lemma joinLines_Cons: "ls \<noteq> [] \<Longrightarrow> joinLines (l # ls) = l @ [CHR 0x0A] @ joinLines ls"
  by (cases ls) auto

lemma joinLines_splitLines: "joinLines (splitLines s) = s"
proof (induction s)
  case Nil
  show ?case by simp
next
  case (Cons c cs)
  show ?case
  proof (cases "c = CHR 0x0A")
    case True
    with Cons show ?thesis by (simp add: joinLines_Cons splitLines_not_Nil)
  next
    case False
    obtain l ls where sp: "splitLines cs = l # ls"
      using splitLines_not_Nil by (cases "splitLines cs") auto
    with Cons False show ?thesis by (cases ls) auto
  qed
qed






section \<open>The file under the synthesizer\<close>

lemma statements_ensure: "statements (ensure s m d ns) = statements s"
  by (simp add: ensure_def)

lemma classPropTypeToObjectPropType_statements:
  "statements (snd (classPropTypeToObjectPropType s p)) = statements s"
  by (simp add: classPropTypeToObjectPropType_def Let_def statements_ensure split: sum.splits)

lemma classPropToObjectProp_statements:
  "statements (snd (classPropToObjectProp s p)) = statements s"
  using classPropTypeToObjectPropType_statements [of s p]
  by (auto simp: classPropToObjectProp_def split: sum.splits prod.splits)

lemma mapProps_statements: "statements (snd (mapProps s ps)) = statements s"
proof (induction ps arbitrary: s)
  case Nil
  show ?case by simp
next
  case (Cons p ps)
  show ?case
    using classPropToObjectProp_statements [of s p] Cons [of "snd (classPropToObjectProp s p)"]
    by (auto split: sum.splits prod.splits)
qed

lemma mapProps_length: "mapProps s ps = (Inr ns, s') \<Longrightarrow> length ns = length ps"
  by (induction ps arbitrary: s ns s') (auto split: sum.splits prod.splits)

lemma dataProperties_length: "dataProperties ds = Inr ps \<Longrightarrow> length ps = length ds"
  by (induction ds arbitrary: ps) (auto split: sum.splits)

lemma dataProperties_map:
  "list_all (\<lambda>d. fieldInitializer d \<noteq> None) ds \<Longrightarrow> dataProperties ds = Inr (map dataEntry ds)"
  by (induction ds)
     (auto simp: dataProperty_def dataEntry_def getInitializerOrThrow_def Let_def split: option.splits)


lemma exportedEntries_add:
  "exportedEntries (addExportAssignment \<lparr>expression = CallExpression f [ObjectLiteralExpression es m],
       isExportEquals = b, leadingTrivia = t\<rparr> s) = es"
  by (simp add: exportedEntries_def addExportAssignment_def)

section \<open>What the printer keeps\<close>

lemma printNode_fromFactory: "fromFactory n \<Longrightarrow> printNode n = n"
  by (induction n) (auto simp: list_all_iff intro: map_idI)

lemma assignmentName_printSourceNode: "assignmentName (printSourceNode p) = assignmentName p"
  by (simp add: printSourceNode_def)

lemma entryName_printNode: "entryName (printNode n) = entryName n"
proof (induction n)
  case (PropertyAssignment k v)
  then show ?case by (cases k) simp_all
next
  case (MethodDeclaration k ps b)
  then show ?case by (cases k) simp_all
qed (simp_all add: assignmentName_printSourceNode)


lemma fromFactory_createDocumentation:
  "fromFactory (createDocumentation target docs) = fromFactory target"
  by (simp add: createDocumentation_def split: list.splits option.splits)

lemma printNode_method:
  "printNode x = MethodDeclaration k ps b \<Longrightarrow> \<exists>k' ps' b'. x = MethodDeclaration k' ps' b'"
  by (cases x) simp_all

lemma fromFactory_name: "classNameToPropName source vue = Inr name \<Longrightarrow> fromFactory name"
  by (auto simp: classNameToPropName_def split: sum.splits)

lemma fromFactory_dataProperty: "dataProperty d = Inr n \<Longrightarrow> fromFactory n"
  by (auto simp: dataProperty_def Let_def fromFactory_createDocumentation
      split: sum.splits option.splits)

lemma fromFactory_dataProperties: "dataProperties ds = Inr ns \<Longrightarrow> list_all fromFactory ns"
  by (induction ds arbitrary: ns) (auto split: sum.splits dest: fromFactory_dataProperty)

lemma fromFactory_data: "classDataToObjectData source vue = Inr d \<Longrightarrow> fromFactory d"
  by (auto simp: classDataToObjectData_def split: sum.splits dest: fromFactory_dataProperties)

section \<open>What a successful run leaves\<close>

lemma classToObject_success:
  assumes "extractor source = Some vue"
    and "classToObject extractor source = (Inr (), source')"
  shows "\<exists>name propsE dataE source1.
           classNameToPropName source vue = Inr name
         \<and> (if vueProps vue = [] then propsE = [] \<and> source1 = source
             else \<exists>p. classPropsToObjectProps source vue = (Inr p, source1) \<and> propsE = [p])
         \<and> (if vueData vue = [] then dataE = []
             else \<exists>d. classDataToObjectData source1 vue = Inr d \<and> dataE = [d])
         \<and> source' =
             addExportAssignment
               \<lparr>expression =
                  printNode
                    (CallExpression (Identifier ''Vue.extend'')
                       [ObjectLiteralExpression
                          (name # map SourceNode (properties (vueDecorator vue)) @ propsE @ dataE) True]),
                isExportEquals = False,
                leadingTrivia = classDocumentation (vueDeclaration vue)\<rparr>
               (removeDeclaration (vueDeclaration vue) source1)"
  using assms unfolding classToObject_def
  by (auto simp: Let_def formatText_def split: sum.splits prod.splits if_splits)

lemma classToObject_output:
  assumes "extractor source = Some vue"
    and "fst (classToObject extractor source) = Inr ()"
  shows "\<exists>name propsE dataE source1.
           classNameToPropName source vue = Inr name
         \<and> (if vueProps vue = [] then propsE = [] \<and> source1 = source
             else \<exists>p. classPropsToObjectProps source vue = (Inr p, source1) \<and> propsE = [p])
         \<and> (if vueData vue = [] then dataE = []
             else \<exists>d. classDataToObjectData source1 vue = Inr d \<and> dataE = [d])
         \<and> snd (classToObject extractor source) =
             addExportAssignment
               \<lparr>expression =
                  printNode
                    (CallExpression (Identifier ''Vue.extend'')
                       [ObjectLiteralExpression
                          (name # map SourceNode (properties (vueDecorator vue)) @ propsE @ dataE) True]),
                isExportEquals = False,
                leadingTrivia = classDocumentation (vueDeclaration vue)\<rparr>
               (removeDeclaration (vueDeclaration vue) source1)"
proof -
  have "classToObject extractor source = (Inr (), snd (classToObject extractor source))"
    using assms(2) by (cases "classToObject extractor source") simp
  from classToObject_success [OF assms(1) this] show ?thesis .
qed

lemma exportedEntries_classToObject:
  assumes "extractor source = Some vue"
    and "fst (classToObject extractor source) = Inr ()"
  shows "\<exists>name propsE dataE source1.
           classNameToPropName source vue = Inr name
         \<and> (if vueProps vue = [] then propsE = [] \<and> source1 = source
             else \<exists>p. classPropsToObjectProps source vue = (Inr p, source1) \<and> propsE = [p])
         \<and> (if vueData vue = [] then dataE = []
             else \<exists>d. classDataToObjectData source1 vue = Inr d \<and> dataE = [d])
         \<and> importDeclarations (snd (classToObject extractor source)) = importDeclarations source1
         \<and> exportedEntries (snd (classToObject extractor source)) =
             name # map (\<lambda>p. SourceNode (printSourceNode p)) (properties (vueDecorator vue))
             @ map printNode propsE @ dataE"
proof -
  from classToObject_output [OF assms] obtain name propsE dataE source1 where
    nm: "classNameToPropName source vue = Inr name"
    and pr: "if vueProps vue = [] then propsE = [] \<and> source1 = source
             else \<exists>p. classPropsToObjectProps source vue = (Inr p, source1) \<and> propsE = [p]"
    and da: "if vueData vue = [] then dataE = []
             else \<exists>d. classDataToObjectData source1 vue = Inr d \<and> dataE = [d]"
    and out: "snd (classToObject extractor source) =
             addExportAssignment
               \<lparr>expression =
                  printNode
                    (CallExpression (Identifier ''Vue.extend'')
                       [ObjectLiteralExpression
                          (name # map SourceNode (properties (vueDecorator vue)) @ propsE @ dataE) True]),
                isExportEquals = False,
                leadingTrivia = classDocumentation (vueDeclaration vue)\<rparr>
               (removeDeclaration (vueDeclaration vue) source1)"
    by blast
  have n: "printNode name = name"
    using nm by (intro printNode_fromFactory fromFactory_name)
  have d: "map printNode dataE = dataE"
  proof (cases "vueData vue = []")
    case True
    with da show ?thesis by simp
  next
    case False
    with da obtain m where m: "classDataToObjectData source1 vue = Inr m" and e: "dataE = [m]"
      by auto
    from m have "printNode m = m"
      by (intro printNode_fromFactory fromFactory_data)
    with e show ?thesis by simp
  qed
  have imp: "importDeclarations (snd (classToObject extractor source)) = importDeclarations source1"
    unfolding out by (simp add: addExportAssignment_def removeDeclaration_def)
  have "exportedEntries (snd (classToObject extractor source)) =
             name # map (\<lambda>p. SourceNode (printSourceNode p)) (properties (vueDecorator vue))
             @ map printNode propsE @ dataE"
    unfolding out by (simp add: exportedEntries_add n d comp_def)
  with nm pr da imp show ?thesis by blast
qed




lemma count_list_ge1: "x \<in> set xs \<Longrightarrow> 1 \<le> count_list xs x"
  by (induction xs) auto

section \<open>When the synthesizer throws\<close>

lemma classPropTypeToObjectPropType_ok:
  "(\<exists>n. fst (classPropTypeToObjectPropType s p) = Inr n)
   = (\<not> isString (fieldType (propDeclaration p)) \<and> \<not> isNumber (fieldType (propDeclaration p))
        \<and> \<not> isBoolean (fieldType (propDeclaration p))
        \<longrightarrow> fieldTypeNode (propDeclaration p) \<noteq> None)"
  by (auto simp: classPropTypeToObjectPropType_def getTypeNodeOrThrow_def Let_def split: option.splits)

lemma classPropOptionsToObjectPropOptions_ok:
  "(\<exists>ns. classPropOptionsToObjectPropOptions s p = Inr ns)
   = (case propDefault p of None \<Rightarrow> True | Some d \<Rightarrow> assignmentInitializer d \<noteq> None)"
  by (auto simp: classPropOptionsToObjectPropOptions_def getInitializerOrThrow_def split: option.splits)

lemma classPropToObjectProp_ok:
  "(\<exists>n. fst (classPropToObjectProp s p) = Inr n) = propPrecondition p"
proof -
  have "(\<exists>n. fst (classPropToObjectProp s p) = Inr n)
        = ((\<exists>n. fst (classPropTypeToObjectPropType s p) = Inr n)
           \<and> (\<exists>ns. classPropOptionsToObjectPropOptions (snd (classPropTypeToObjectPropType s p)) p = Inr ns))"
    by (cases "classPropTypeToObjectPropType s p")
       (auto simp: classPropToObjectProp_def split: sum.splits)
  then show ?thesis
    unfolding propPrecondition_def classPropTypeToObjectPropType_ok classPropOptionsToObjectPropOptions_ok
    by simp
qed

lemma mapProps_ok: "(\<exists>ns. fst (mapProps s ps) = Inr ns) = list_all propPrecondition ps"
proof (induction ps arbitrary: s)
  case Nil
  show ?case by simp
next
  case (Cons p ps)
  obtain r s1 where r: "classPropToObjectProp s p = (r, s1)"
    by (cases "classPropToObjectProp s p")
  show ?case
  proof (cases r)
    case (Inl e)
    with r have "\<not> propPrecondition p"
      using classPropToObjectProp_ok [of s p] by simp
    with r Inl show ?thesis by simp
  next
    case (Inr n)
    with r have "propPrecondition p"
      using classPropToObjectProp_ok [of s p] by simp
    moreover obtain r2 s2 where r2: "mapProps s1 ps = (r2, s2)"
      by (cases "mapProps s1 ps")
    ultimately show ?thesis
      using r Inr Cons [of s1] by (cases r2) auto
  qed
qed

lemma dataProperty_ok: "(\<exists>n. dataProperty d = Inr n) = (fieldInitializer d \<noteq> None)"
  by (auto simp: dataProperty_def getInitializerOrThrow_def Let_def split: option.splits)

lemma dataProperties_ok:
  "(\<exists>ns. dataProperties ds = Inr ns) = list_all (\<lambda>d. fieldInitializer d \<noteq> None) ds"
proof (induction ds)
  case Nil
  show ?case by simp
next
  case (Cons d ds)
  show ?case
    using dataProperty_ok [of d] Cons
    by (cases "dataProperty d"; cases "dataProperties ds") auto
qed

lemma classToObject_ok:
  assumes "extractor source = Some vue"
  shows "(fst (classToObject extractor source) = Inr ()) = synthesisPreconditions vue"
proof -
  obtain rp sp where mp: "mapProps source (vueProps vue) = (rp, sp)"
    by (cases "mapProps source (vueProps vue)")
  have p: "(\<exists>ns. rp = Inr ns) = list_all propPrecondition (vueProps vue)"
    using mapProps_ok [of source "vueProps vue"] mp by simp
  have d: "(\<exists>ns. dataProperties (vueData vue) = Inr ns)
           = list_all (\<lambda>d. fieldInitializer d \<noteq> None) (vueData vue)"
    by (rule dataProperties_ok)
  show ?thesis
    using assms mp p d
    unfolding classToObject_def synthesisPreconditions_def classNameToPropName_def
      getNameOrThrow_def classPropsToObjectProps_def classDataToObjectData_def
    by (cases rp; cases "dataProperties (vueData vue)"; cases "className (vueDeclaration vue)";
        cases "vueProps vue"; cases "vueData vue")
       (auto simp: Let_def)
qed

section \<open>Imports\<close>




lemma hasDefault_filter: "hasDefault ds m = (filter (importsDefault m) ds \<noteq> [])"
  by (induction ds) (auto simp: hasDefault_def)

lemma count_updateFirst_named:
  "length (filter (importsDefault m)
     (updateFirst m' (\<lambda>d. d\<lparr>namedImports := namedImports d @ [n]\<rparr>) ds))
   = length (filter (importsDefault m) ds)"
  by (induction ds) (auto simp: importsDefault_def)

lemma count_ensureNamed:
  "length (filter (importsDefault m) (ensureNamed ds m' n)) = length (filter (importsDefault m) ds)"
  by (simp add: ensureNamed_def count_updateFirst_named) (simp add: importsDefault_def)

lemma count_foldl_ensureNamed:
  "length (filter (importsDefault m) (foldl (\<lambda>ds n. ensureNamed ds m' n) ds ns))
   = length (filter (importsDefault m) ds)"
  by (induction ns arbitrary: ds) (simp_all add: count_ensureNamed)

lemma count_updateFirst_default:
  "filter (importsDefault m) ds = [] \<Longrightarrow> importsModule ds m \<Longrightarrow>
   length (filter (importsDefault m) (updateFirst m (\<lambda>d. d\<lparr>defaultImport := Some x\<rparr>) ds)) = 1"
proof (induction ds)
  case Nil
  then show ?case by (simp add: importsModule_def)
next
  case (Cons d ds)
  show ?case
  proof (cases "moduleSpecifier d = m")
    case True
    with Cons.prems show ?thesis
      by (simp add: importsDefault_def split: if_splits)
  next
    case False
    with Cons show ?thesis
      by (simp add: importsDefault_def importsModule_def split: if_splits)
  qed
qed

lemma count_ensureDefault:
  "length (filter (importsDefault m) (ensureDefault ds m x))
   = max 1 (length (filter (importsDefault m) ds))"
proof (cases "filter (importsDefault m) ds")
  case Nil
  then have no: "\<not> hasDefault ds m"
    by (simp add: hasDefault_filter)
  show ?thesis
  proof (cases "importsModule ds m")
    case True
    with no Nil show ?thesis
      by (simp add: ensureDefault_def count_updateFirst_default)
  next
    case False
    with no Nil show ?thesis
      by (simp add: ensureDefault_def importsDefault_def)
  qed
next
  case (Cons d rest)
  then have "hasDefault ds m"
    by (simp add: hasDefault_filter)
  with Cons show ?thesis
    by (simp add: ensureDefault_def)
qed

lemma defaultImportCount_ensure_named:
  "defaultImportCount (ensure source m' None ns) m = defaultImportCount source m"
  by (simp add: defaultImportCount_def ensure_def count_foldl_ensureNamed)

lemma defaultImportCount_ensure_default:
  "defaultImportCount (ensure source m (Some x) ns) m = max 1 (defaultImportCount source m)"
  by (simp add: defaultImportCount_def ensure_def count_foldl_ensureNamed count_ensureDefault)

lemma filter_vue_decorator:
  "filter (importsDefault ''vue'') (filter (\<lambda>d. moduleSpecifier d \<notin> set decoratorModules) ds)
   = filter (importsDefault ''vue'') ds"
  by (induction ds) (auto simp: decoratorModules_def importsDefault_def)

lemma defaultImportCount_collapse:
  "defaultImportCount (collapseDecoratorImports source) ''vue'' = max 1 (defaultImportCount source ''vue'')"
  unfolding collapseDecoratorImports_def defaultImportCount_ensure_default
  by (simp add: defaultImportCount_def filter_vue_decorator del: filter_filter)

lemma only_decorator_imports_count:
  "list_all (\<lambda>d. moduleSpecifier d \<in> set decoratorModules) (importDeclarations source)
   \<Longrightarrow> defaultImportCount source ''vue'' = 0"
  unfolding defaultImportCount_def
  by (induction "importDeclarations source" arbitrary: source)
     (auto simp: decoratorModules_def importsDefault_def list_all_iff filter_empty_conv)

lemma defaultImportCount_type:
  "defaultImportCount (snd (classPropTypeToObjectPropType s p)) m = defaultImportCount s m"
  by (simp add: classPropTypeToObjectPropType_def Let_def defaultImportCount_ensure_named
      split: sum.splits)

lemma defaultImportCount_prop:
  "defaultImportCount (snd (classPropToObjectProp s p)) m = defaultImportCount s m"
  using defaultImportCount_type [of s p m]
  by (auto simp: classPropToObjectProp_def split: sum.splits prod.splits)

lemma defaultImportCount_mapProps:
  "defaultImportCount (snd (mapProps s ps)) m = defaultImportCount s m"
proof (induction ps arbitrary: s)
  case Nil
  show ?case by simp
next
  case (Cons p ps)
  show ?case
    using defaultImportCount_prop [of s p m] Cons [of "snd (classPropToObjectProp s p)"]
    by (auto split: sum.splits prod.splits)
qed

lemma defaultImportCount_props:
  "defaultImportCount (snd (classPropsToObjectProps s vue)) m = defaultImportCount s m"
  using defaultImportCount_mapProps [of s "vueProps vue" m]
  by (auto simp: classPropsToObjectProps_def split: sum.splits prod.splits)

lemma defaultImportCount_classToObject:
  "defaultImportCount (snd (classToObject extractor source)) m = defaultImportCount source m"
proof (cases "extractor source")
  case None
  then show ?thesis by (simp add: classToObject_def)
next
  case (Some vue)
  have edit: "\<And>s c e. defaultImportCount (formatText (addExportAssignment e (removeDeclaration c s))) m
              = defaultImportCount s m"
    by (simp add: defaultImportCount_def formatText_def addExportAssignment_def removeDeclaration_def)
  show ?thesis
    using Some defaultImportCount_props [of source vue m]
    unfolding classToObject_def
    by (auto simp: Let_def edit split: sum.splits prod.splits if_splits)
qed

section \<open>The extractor of the specification\<close>

lemma example_extract: "vue_class_extract exampleSource = Some exampleVue"
  by (simp add: extract_defs example_defs)

lemma findComponentClass_None:
  "(findComponentClass ss = None) = (filter isComponentStatement ss = [])"
  by (induction ss rule: findComponentClass.induct) auto

lemma findComponentClass_Some:
  "findComponentClass ss = Some c \<Longrightarrow> isComponentClass c \<and> ClassStatement c \<in> set ss"
  by (induction ss rule: findComponentClass.induct) (auto split: if_splits)

lemma filter_remove1_length:
  "P x \<Longrightarrow> x \<in> set xs \<Longrightarrow> Suc (length (filter P (remove1 x xs))) = length (filter P xs)"
  by (induction xs) auto

lemma vue_class_extract_None:
  "(vue_class_extract source = None) = (componentClassCount source = 0)"
proof -
  have "(vue_class_extract source = None) = (findComponentClass (statements source) = None)"
    by (simp add: vue_class_extract_def split: option.splits)
  then show ?thesis
    by (simp add: findComponentClass_None componentClassCount_def)
qed

lemma vue_class_extract_Some:
  "vue_class_extract source = Some vue \<Longrightarrow>
   isComponentClass (vueDeclaration vue) \<and> ClassStatement (vueDeclaration vue) \<in> set (statements source)"
  by (auto simp: vue_class_extract_def split: option.splits dest: findComponentClass_Some)

lemma classPropsToObjectProps_statements:
  "statements (snd (classPropsToObjectProps s vue)) = statements s"
  using mapProps_statements [of s "vueProps vue"]
  by (auto simp: classPropsToObjectProps_def split: sum.splits prod.splits)

lemma classToObject_statements:
  assumes "extractor source = Some vue"
    and "fst (classToObject extractor source) = Inr ()"
  shows "\<exists>e. statements (snd (classToObject extractor source))
              = remove1 (ClassStatement (vueDeclaration vue)) (statements source) @ [ExportAssignment e]"
proof -
  from classToObject_output [OF assms] obtain propsE source1 e where
    pr: "if vueProps vue = [] then propsE = [] \<and> source1 = source
         else \<exists>p. classPropsToObjectProps source vue = (Inr p, source1) \<and> propsE = [p]"
    and out: "snd (classToObject extractor source)
              = addExportAssignment e (removeDeclaration (vueDeclaration vue) source1)"
    by blast
  have "statements source1 = statements source"
    using pr classPropsToObjectProps_statements [of source vue]
    by (auto split: if_splits)
  with out show ?thesis
    by (auto simp: addExportAssignment_def removeDeclaration_def)
qed

section \<open>The descriptors of the input fields\<close>












section \<open>Input fields\<close>






section \<open>No component class: the file is left alone\<close>

text \<open>
  C3. When the extractor finds no decorated component class in the file,
  \<^verbatim>\<open>classToObject\<close> returns at once: it raises nothing and the file it leaves is the
  file it was given, imports and statements alike. This holds for every extractor.
\<close>

theorem classToObject_without_component:
  "extractor source = None \<Longrightarrow> classToObject extractor source = (Inr (), source)"
  by (simp add: classToObject_def)

theorem classToObject_without_component_witness:
  "(\<lambda>s. None) \<lparr>importDeclarations = [\<lparr>moduleSpecifier = ''vue'', defaultImport = Some ''Vue'', namedImports = []\<rparr>],
                 statements = [OtherStatement ''const x = 1'']\<rparr> = (None :: vue_ir option)
   \<and> classToObject (\<lambda>s. None)
        \<lparr>importDeclarations = [\<lparr>moduleSpecifier = ''vue'', defaultImport = Some ''Vue'', namedImports = []\<rparr>],
         statements = [OtherStatement ''const x = 1'']\<rparr>
      = (Inr (),
         \<lparr>importDeclarations = [\<lparr>moduleSpecifier = ''vue'', defaultImport = Some ''Vue'', namedImports = []\<rparr>],
          statements = [OtherStatement ''const x = 1'']\<rparr>)"
  using classToObject_without_component
    [of "\<lambda>s. None" "\<lparr>importDeclarations = [\<lparr>moduleSpecifier = ''vue'', defaultImport = Some ''Vue'', namedImports = []\<rparr>],
                       statements = [OtherStatement ''const x = 1'']\<rparr>"]
  by simp

section \<open>A second run\<close>

text \<open>
  C4, as amended. With the extractor of the specification, a second run on the
  output of a successful run changes nothing when the input held at most one
  decorated component class: the output then holds none, and the second run returns
  it as it is.
\<close>

theorem second_run_changes_nothing:
  assumes "componentClassCount source \<le> 1"
    and "fst (classToObject vue_class_extract source) = Inr ()"
  shows "componentClassCount (snd (classToObject vue_class_extract source)) = 0
         \<and> classToObject vue_class_extract (snd (classToObject vue_class_extract source))
             = (Inr (), snd (classToObject vue_class_extract source))"
proof -
  let ?out = "snd (classToObject vue_class_extract source)"
  have none: "componentClassCount ?out = 0"
  proof (cases "vue_class_extract source")
    case None
    then have "?out = source"
      by (simp add: classToObject_def)
    with None show ?thesis
      by (simp add: vue_class_extract_None)
  next
    case (Some vue)
    from classToObject_statements [OF Some assms(2)] obtain e where
      st: "statements ?out
           = remove1 (ClassStatement (vueDeclaration vue)) (statements source) @ [ExportAssignment e]"
      by blast
    from vue_class_extract_Some [OF Some]
    have "isComponentStatement (ClassStatement (vueDeclaration vue))"
      and "ClassStatement (vueDeclaration vue) \<in> set (statements source)"
      by simp_all
    then have "Suc (length (filter isComponentStatement
                  (remove1 (ClassStatement (vueDeclaration vue)) (statements source))))
               = componentClassCount source"
      unfolding componentClassCount_def by (rule filter_remove1_length)
    with assms(1) have "length (filter isComponentStatement
                  (remove1 (ClassStatement (vueDeclaration vue)) (statements source))) = 0"
      by linarith
    with st show ?thesis
      by (simp add: componentClassCount_def)
  qed
  then have "vue_class_extract ?out = None"
    by (simp add: vue_class_extract_None)
  then have "classToObject vue_class_extract ?out = (Inr (), ?out)"
    by (simp add: classToObject_def)
  with none show ?thesis by simp
qed

theorem second_run_changes_nothing_witness:
  "componentClassCount exampleSource \<le> 1
   \<and> fst (classToObject vue_class_extract exampleSource) = Inr ()
   \<and> componentClassCount (snd (classToObject vue_class_extract exampleSource)) = 0
   \<and> classToObject vue_class_extract (snd (classToObject vue_class_extract exampleSource))
       = (Inr (), snd (classToObject vue_class_extract exampleSource))"
proof -
  have c: "componentClassCount exampleSource \<le> 1"
    by (simp add: componentClassCount_def exampleSource_def)
  have "classToObject vue_class_extract exampleSource = classToObject (\<lambda>s. Some exampleVue) exampleSource"
    by (simp add: classToObject_def example_extract)
  then have r: "fst (classToObject vue_class_extract exampleSource) = Inr ()"
    by (simp add: synth_defs example_defs)
  from second_run_changes_nothing [OF c r] c r show ?thesis by (intro conjI) blast+
qed

text \<open>
  C4 as stated fails for a file with two decorated classes: the first run converts
  \<^verbatim>\<open>Widget\<close> and leaves \<^verbatim>\<open>Gadget\<close>, so a decorated class remains and the second
  run does not return the file it was given.
\<close>

theorem second_run_converts_second_class:
  "fst (classToObject vue_class_extract twoClassSource) = Inr ()
   \<and> statements (snd (classToObject vue_class_extract twoClassSource))
       = [ClassStatement secondClass,
          ExportAssignment
            \<lparr>expression = CallExpression (Identifier ''Vue.extend'')
               [ObjectLiteralExpression
                  [PropertyAssignment (Identifier ''name'') (StringLiteral ''Widget'' True),
                   SourceNode \<lparr>assignmentName = ''name'', assignmentInitializer = Some [OtherText ''otherName'']\<rparr>] True],
             isExportEquals = False, leadingTrivia = []\<rparr>]
   \<and> classToObject vue_class_extract (snd (classToObject vue_class_extract twoClassSource))
       \<noteq> (Inr (), snd (classToObject vue_class_extract twoClassSource))"
  by (simp add: classToObject_def extract_defs twoClassSource_def collisionVue_def secondClass_def
      classNameToPropName_def getNameOrThrow_def removeDeclaration_def addExportAssignment_def
      formatText_def classDocumentation_def printSourceNode_def Let_def)

section \<open>The synthesized object\<close>

text \<open>
  C5 at an input where the code misses it. The claim has the entries of the
  decorator's configuration in the exported object as they were written. For
  \<^verbatim>\<open>@Component({ template: '<div/>', components: { Other } })\<close> on class \<^verbatim>\<open>Widget\<close>
  the run succeeds and the exported entries are, in the order the claim gives,
  \<^verbatim>\<open>name: 'Widget'\<close>, \<^verbatim>\<open>template: \<close> and \<^verbatim>\<open>components: { Other }\<close>: the entry built
  from identifiers is printed as written, the string literal is printed as the empty
  text. The \<^verbatim>\<open>default\<close> option of an input field does not share the defect: the code
  copies the text of its initializer.
\<close>

theorem configuration_literal_not_printed:
  "fst (classToObject (\<lambda>s. Some literalVue) literalSource) = Inr ()
   \<and> exportedEntries (snd (classToObject (\<lambda>s. Some literalVue) literalSource)) =
       [PropertyAssignment (Identifier ''name'') (StringLiteral ''Widget'' True),
        SourceNode \<lparr>assignmentName = ''template'', assignmentInitializer = Some [LiteralText []]\<rparr>,
        SourceNode \<lparr>assignmentName = ''components'', assignmentInitializer = Some [OtherText ''{ Other }'']\<rparr>]
   \<and> exportedEntries (snd (classToObject (\<lambda>s. Some literalVue) literalSource)) \<noteq>
       PropertyAssignment (Identifier ''name'') (StringLiteral ''Widget'' True)
       # map SourceNode (properties (vueDecorator literalVue))"
  by (simp add: synth_defs literalVue_def literalSource_def exportedEntries_def)

text \<open>
  C6. With the import ledger of the specification: a file whose imports all come
  from the two decorator modules has, after the collapse of the decorator imports,
  exactly one default import of \<^verbatim>\<open>vue\<close>; a file with one default import of \<^verbatim>\<open>vue\<close>
  still has exactly one. \<^verbatim>\<open>classToObject\<close> adds and removes no default import, so
  the count is one whichever of the two steps runs first.
\<close>

theorem one_default_import:
  "(list_all (\<lambda>d. moduleSpecifier d \<in> set decoratorModules) (importDeclarations source)
      \<longrightarrow> defaultImportCount (collapseDecoratorImports source) ''vue'' = 1)
   \<and> (defaultImportCount source ''vue'' = 1
      \<longrightarrow> defaultImportCount (collapseDecoratorImports source) ''vue'' = 1)
   \<and> (defaultImportCount source ''vue'' \<le> 1
      \<longrightarrow> defaultImportCount (collapseDecoratorImports (snd (classToObject extractor source))) ''vue'' = 1
        \<and> defaultImportCount (snd (classToObject extractor (collapseDecoratorImports source))) ''vue'' = 1)"
  using only_decorator_imports_count [of source]
  by (auto simp: defaultImportCount_collapse defaultImportCount_classToObject)

theorem one_default_import_witness:
  "list_all (\<lambda>d. moduleSpecifier d \<in> set decoratorModules) (importDeclarations decoratorImportsSource)
   \<and> collapseDecoratorImports decoratorImportsSource = vueImportSource
   \<and> defaultImportCount (collapseDecoratorImports decoratorImportsSource) ''vue'' = 1
   \<and> defaultImportCount vueImportSource ''vue'' = 1
   \<and> collapseDecoratorImports vueImportSource = vueImportSource
   \<and> defaultImportCount (collapseDecoratorImports vueImportSource) ''vue'' = 1
   \<and> defaultImportCount exampleSource ''vue'' \<le> 1
   \<and> importDeclarations (collapseDecoratorImports (snd (classToObject (\<lambda>s. Some exampleVue) exampleSource)))
       = [\<lparr>moduleSpecifier = ''vue'', defaultImport = Some ''Vue'', namedImports = [''PropType'']\<rparr>]
   \<and> defaultImportCount (collapseDecoratorImports (snd (classToObject (\<lambda>s. Some exampleVue) exampleSource))) ''vue'' = 1
   \<and> defaultImportCount (snd (classToObject (\<lambda>s. Some exampleVue) (collapseDecoratorImports exampleSource))) ''vue'' = 1"
proof -
  have h1: "list_all (\<lambda>d. moduleSpecifier d \<in> set decoratorModules) (importDeclarations decoratorImportsSource)"
    by (simp add: decoratorImportsSource_def decoratorModules_def)
  have h2: "defaultImportCount vueImportSource ''vue'' = 1"
    by (simp add: vueImportSource_def defaultImportCount_def importsDefault_def)
  have h3: "defaultImportCount exampleSource ''vue'' \<le> 1"
    by (simp add: exampleSource_def defaultImportCount_def)
  have e1: "collapseDecoratorImports decoratorImportsSource = vueImportSource"
    by (simp add: import_defs decoratorImportsSource_def vueImportSource_def)
  have e2: "collapseDecoratorImports vueImportSource = vueImportSource"
    by (simp add: import_defs vueImportSource_def)
  have e3: "importDeclarations (collapseDecoratorImports (snd (classToObject (\<lambda>s. Some exampleVue) exampleSource)))
       = [\<lparr>moduleSpecifier = ''vue'', defaultImport = Some ''Vue'', namedImports = [''PropType'']\<rparr>]"
    by (simp add: synth_defs example_defs import_defs)
  from one_default_import [of decoratorImportsSource] h1
  have c1: "defaultImportCount (collapseDecoratorImports decoratorImportsSource) ''vue'' = 1"
    by blast
  from one_default_import [of vueImportSource] h2
  have c2: "defaultImportCount (collapseDecoratorImports vueImportSource) ''vue'' = 1"
    by blast
  from one_default_import [of exampleSource "\<lambda>s. Some exampleVue"] h3
  have c3: "defaultImportCount (collapseDecoratorImports (snd (classToObject (\<lambda>s. Some exampleVue) exampleSource))) ''vue'' = 1
     \<and> defaultImportCount (snd (classToObject (\<lambda>s. Some exampleVue) (collapseDecoratorImports exampleSource))) ''vue'' = 1"
    by blast
  from h1 e1 c1 h2 e2 c2 h3 e3 c3 show ?thesis by (intro conjI) blast+
qed

text \<open>
  C7. For state fields that all have their initializer, \<^verbatim>\<open>classDataToObjectData\<close>
  builds a method named \<^verbatim>\<open>data\<close> without parameters whose body returns an object
  literal with one entry per state field, in order; the value of an entry is the text
  of the field's initializer, followed by \<^verbatim>\<open> as T\<close> exactly when the field has a type
  annotation \<open>T\<close>. In a successful run of \<^verbatim>\<open>classToObject\<close> this method is the last
  entry of the exported object when there is a state field, and the object has no
  method when there is none.
\<close>

theorem data_method_built:
  assumes "list_all (\<lambda>d. fieldInitializer d \<noteq> None) (vueData vue)"
  shows "\<exists>m ps.
           classDataToObjectData source vue = Inr m
         \<and> m = MethodDeclaration (Identifier ''data'') []
                 (Block [ReturnStatement (ObjectLiteralExpression ps True)] True)
         \<and> list_all2
             (\<lambda>d p. \<exists>v. fieldInitializer d = Some v
                \<and> p = createDocumentation
                        (PropertyAssignment (Identifier (fieldName d))
                           (Identifier (case fieldTypeNode d of None \<Rightarrow> v | Some t \<Rightarrow> v @ '' as '' @ t)))
                        (fieldJsDocs d))
             (vueData vue) ps
         \<and> (extractor file = Some vue \<and> fst (classToObject extractor file) = Inr ()
              \<longrightarrow> (if vueData vue = []
                   then \<forall>n a b. MethodDeclaration n a b \<notin> set (exportedEntries (snd (classToObject extractor file)))
                   else last (exportedEntries (snd (classToObject extractor file))) = m))"
proof -
  let ?ps = "map dataEntry (vueData vue)"
  let ?m = "MethodDeclaration (Identifier ''data'') []
              (Block [ReturnStatement (ObjectLiteralExpression ?ps True)] True)"
  have dp: "dataProperties (vueData vue) = Inr ?ps"
    using assms by (rule dataProperties_map)
  then have m: "\<And>s. classDataToObjectData s vue = Inr ?m"
    by (simp add: classDataToObjectData_def)
  have entries: "list_all2
             (\<lambda>d p. \<exists>v. fieldInitializer d = Some v
                \<and> p = createDocumentation
                        (PropertyAssignment (Identifier (fieldName d))
                           (Identifier (case fieldTypeNode d of None \<Rightarrow> v | Some t \<Rightarrow> v @ '' as '' @ t)))
                        (fieldJsDocs d))
             (vueData vue) ?ps"
    using assms
    by (induction "vueData vue" arbitrary: vue)
       (auto simp: list_all2_map2 list_all2_same list_all_iff dataEntry_def split: option.splits)
  have whole: "if vueData vue = []
         then \<forall>n a b. MethodDeclaration n a b \<notin> set (exportedEntries (snd (classToObject extractor file)))
         else last (exportedEntries (snd (classToObject extractor file))) = ?m"
    if ex: "extractor file = Some vue" and ok: "fst (classToObject extractor file) = Inr ()"
  proof -
    from exportedEntries_classToObject [OF ex ok] obtain name propsE dataE source1 where
      nm: "classNameToPropName file vue = Inr name"
      and pr: "if vueProps vue = [] then propsE = [] \<and> source1 = file
               else \<exists>p. classPropsToObjectProps file vue = (Inr p, source1) \<and> propsE = [p]"
      and da: "if vueData vue = [] then dataE = []
               else \<exists>d. classDataToObjectData source1 vue = Inr d \<and> dataE = [d]"
      and out: "exportedEntries (snd (classToObject extractor file)) =
                  name # map (\<lambda>p. SourceNode (printSourceNode p)) (properties (vueDecorator vue))
                  @ map printNode propsE @ dataE"
      by blast
    have name: "\<forall>n a b. name \<noteq> MethodDeclaration n a b"
      using nm by (auto simp: classNameToPropName_def split: sum.splits)
    have props: "\<forall>n a b. MethodDeclaration n a b \<notin> set (map printNode propsE)"
      using pr by (auto simp: classPropsToObjectProps_def split: if_splits prod.splits sum.splits)
    show ?thesis
      using out name props da m by (auto split: if_splits)
  qed
  show ?thesis
    by (rule exI [of _ ?m], rule exI [of _ ?ps]) (use m entries whole in blast)
qed

theorem data_method_built_witness:
  "list_all (\<lambda>d. fieldInitializer d \<noteq> None) (vueData exampleVue)
   \<and> (\<lambda>s. Some exampleVue) exampleSource = Some exampleVue
   \<and> fst (classToObject (\<lambda>s. Some exampleVue) exampleSource) = Inr ()
   \<and> classDataToObjectData exampleSource exampleVue =
       Inr (MethodDeclaration (Identifier ''data'') []
              (Block [ReturnStatement (ObjectLiteralExpression
                 [LeadingComment True (commentText ''Clicks so far.'')
                    (PropertyAssignment (Identifier ''counter'') (Identifier ''0 as number'')),
                  PropertyAssignment (Identifier ''open'') (Identifier ''false'')] True)] True))
   \<and> last (exportedEntries (snd (classToObject (\<lambda>s. Some exampleVue) exampleSource))) =
       MethodDeclaration (Identifier ''data'') []
              (Block [ReturnStatement (ObjectLiteralExpression
                 [LeadingComment True (commentText ''Clicks so far.'')
                    (PropertyAssignment (Identifier ''counter'') (Identifier ''0 as number'')),
                  PropertyAssignment (Identifier ''open'') (Identifier ''false'')] True)] True)"
proof -
  have pre: "list_all (\<lambda>d. fieldInitializer d \<noteq> None) (vueData exampleVue)"
    by (simp add: example_defs)
  have run: "fst (classToObject (\<lambda>s. Some exampleVue) exampleSource) = Inr ()"
    by (simp add: synth_defs example_defs)
  have m: "classDataToObjectData exampleSource exampleVue =
       Inr (MethodDeclaration (Identifier ''data'') []
              (Block [ReturnStatement (ObjectLiteralExpression
                 [LeadingComment True (commentText ''Clicks so far.'')
                    (PropertyAssignment (Identifier ''counter'') (Identifier ''0 as number'')),
                  PropertyAssignment (Identifier ''open'') (Identifier ''false'')] True)] True))"
    by (simp add: classDataToObjectData_def dataProperty_def getInitializerOrThrow_def
        createDocumentation_def example_defs)
  have nonempty: "vueData exampleVue \<noteq> []"
    by (simp add: example_defs)
  from data_method_built [OF pre, of exampleSource "\<lambda>s. Some exampleVue" exampleSource]
  show ?thesis
    using pre run m nonempty example_extractor by auto
qed

text \<open>
  C8, as amended. In the exported object the key of the synthesized \<^verbatim>\<open>name\<close> entry
  stands before the keys of the decorator's configuration, which keep their order,
  and the keys of the synthesized \<^verbatim>\<open>props\<close> and \<^verbatim>\<open>data\<close> entries after them. No
  key is dropped on either side: a key of the configuration that is also the key of
  a synthesized entry occurs at least twice among the keys of the exported object.
\<close>

theorem collision_doubles_key:
  assumes "extractor source = Some vue"
    and "fst (classToObject extractor source) = Inr ()"
  shows "map entryName (exportedEntries (snd (classToObject extractor source))) =
           Some ''name'' # map (\<lambda>p. Some (assignmentName p)) (properties (vueDecorator vue))
           @ (if vueProps vue = [] then [] else [Some ''props''])
           @ (if vueData vue = [] then [] else [Some ''data''])
         \<and> (\<forall>p\<in>set (properties (vueDecorator vue)).
               assignmentName p = ''name''
               \<or> (assignmentName p = ''props'' \<and> vueProps vue \<noteq> [])
               \<or> (assignmentName p = ''data'' \<and> vueData vue \<noteq> [])
               \<longrightarrow> 2 \<le> count_list (map entryName (exportedEntries (snd (classToObject extractor source))))
                          (Some (assignmentName p)))"
proof -
  let ?config = "map (\<lambda>p. Some (assignmentName p)) (properties (vueDecorator vue))"
  let ?synthesized = "(if vueProps vue = [] then [] else [Some ''props''])
                      @ (if vueData vue = [] then [] else [Some ''data''])"
  from exportedEntries_classToObject [OF assms] obtain name propsE dataE source1 where
    nm: "classNameToPropName source vue = Inr name"
    and pr: "if vueProps vue = [] then propsE = [] \<and> source1 = source
             else \<exists>p. classPropsToObjectProps source vue = (Inr p, source1) \<and> propsE = [p]"
    and da: "if vueData vue = [] then dataE = []
             else \<exists>d. classDataToObjectData source1 vue = Inr d \<and> dataE = [d]"
    and out: "exportedEntries (snd (classToObject extractor source)) =
                name # map (\<lambda>p. SourceNode (printSourceNode p)) (properties (vueDecorator vue))
                @ map printNode propsE @ dataE"
    by blast
  have name: "entryName name = Some ''name''"
    using nm by (auto simp: classNameToPropName_def split: sum.splits)
  have props: "map entryName (map printNode propsE) = (if vueProps vue = [] then [] else [Some ''props''])"
    using pr by (auto simp: classPropsToObjectProps_def split: if_splits prod.splits sum.splits)
  have data: "map entryName dataE = (if vueData vue = [] then [] else [Some ''data''])"
    using da by (auto simp: classDataToObjectData_def split: if_splits sum.splits)
  have config: "map entryName (map (\<lambda>p. SourceNode (printSourceNode p)) (properties (vueDecorator vue)))
                = ?config"
    by (simp add: assignmentName_printSourceNode)
  have keys: "map entryName (exportedEntries (snd (classToObject extractor source)))
              = Some ''name'' # ?config @ ?synthesized"
    unfolding out using name props data config by simp
  have twice: "2 \<le> count_list (map entryName (exportedEntries (snd (classToObject extractor source))))
                     (Some (assignmentName p))"
    if p: "p \<in> set (properties (vueDecorator vue))"
      and hit: "assignmentName p = ''name''
               \<or> (assignmentName p = ''props'' \<and> vueProps vue \<noteq> [])
               \<or> (assignmentName p = ''data'' \<and> vueData vue \<noteq> [])" for p
  proof -
    have "Some (assignmentName p) \<in> set ?config"
      using p by force
    then have c: "1 \<le> count_list ?config (Some (assignmentName p))"
      by (rule count_list_ge1)
    have "Some (assignmentName p) \<in> set (Some ''name'' # ?synthesized)"
      using hit by auto
    then have s: "1 \<le> count_list (Some ''name'' # ?synthesized) (Some (assignmentName p))"
      by (rule count_list_ge1)
    have "count_list (Some ''name'' # ?config @ ?synthesized) (Some (assignmentName p))
          = count_list (Some ''name'' # ?synthesized) (Some (assignmentName p))
            + count_list ?config (Some (assignmentName p))"
      by simp
    with c s show ?thesis
      unfolding keys by linarith
  qed
  from keys twice show ?thesis by blast
qed

theorem collision_doubles_key_witness:
  "(\<lambda>s. Some collisionVue) collisionSource = Some collisionVue
   \<and> fst (classToObject (\<lambda>s. Some collisionVue) collisionSource) = Inr ()
   \<and> map entryName (exportedEntries (snd (classToObject (\<lambda>s. Some collisionVue) collisionSource)))
       = [Some ''name'', Some ''name'']
   \<and> 2 \<le> count_list (map entryName (exportedEntries (snd (classToObject (\<lambda>s. Some collisionVue) collisionSource))))
            (Some ''name'')"
proof -
  have ex: "(\<lambda>s. Some collisionVue) collisionSource = Some collisionVue"
    by simp
  have run: "fst (classToObject (\<lambda>s. Some collisionVue) collisionSource) = Inr ()"
    by (simp add: synth_defs collisionVue_def collisionSource_def)
  have cfg: "properties (vueDecorator collisionVue)
             = [\<lparr>assignmentName = ''name'', assignmentInitializer = Some [OtherText ''otherName'']\<rparr>]"
    and none: "vueProps collisionVue = []" "vueData collisionVue = []"
    by (simp_all add: collisionVue_def)
  note t = collision_doubles_key [OF ex run]
  from t have keys: "map entryName (exportedEntries (snd (classToObject (\<lambda>s. Some collisionVue) collisionSource)))
       = [Some ''name'', Some ''name'']"
    unfolding cfg none by simp
  from t have "2 \<le> count_list (map entryName (exportedEntries (snd (classToObject (\<lambda>s. Some collisionVue) collisionSource))))
            (Some ''name'')"
    unfolding cfg none by simp
  with ex run keys show ?thesis by (intro conjI)
qed

text \<open>
  C8 as stated fails for \<^verbatim>\<open>name\<close>: with the configuration \<^verbatim>\<open>{ name: otherName }\<close>
  the synthesized \<^verbatim>\<open>name\<close> entry is the first entry of the object, before the
  configuration's own, so the configuration entries are not at the head of the object.
\<close>

theorem synthesized_name_precedes_config:
  "exportedEntries (snd (classToObject (\<lambda>s. Some collisionVue) collisionSource)) =
     [PropertyAssignment (Identifier ''name'') (StringLiteral ''Widget'' True),
      SourceNode \<lparr>assignmentName = ''name'', assignmentInitializer = Some [OtherText ''otherName'']\<rparr>]
   \<and> \<not> appendedAfterConfig (properties (vueDecorator collisionVue))
         (exportedEntries (snd (classToObject (\<lambda>s. Some collisionVue) collisionSource)))"
  by (simp add: synth_defs collisionVue_def collisionSource_def exportedEntries_def appendedAfterConfig_def printSourceNode_def)

section \<open>Documentation\<close>




section \<open>Totality\<close>

text \<open>
  C10. With a component found, \<^verbatim>\<open>classToObject\<close> returns normally exactly when the
  preconditions hold: every input field whose type is none of string, number and
  boolean has a type annotation, every supplied \<^verbatim>\<open>default\<close> option has an
  initializer, every state field has an initializer, and the class has a name. When
  one of them fails the run ends in an exception of one of the throwing lookups.
\<close>

theorem synthesis_total_iff_preconditions:
  assumes "extractor source = Some vue"
  shows "(fst (classToObject extractor source) = Inr ()) = synthesisPreconditions vue
         \<and> (\<not> synthesisPreconditions vue \<longrightarrow> (\<exists>e. fst (classToObject extractor source) = Inl e))"
proof -
  have iff: "(fst (classToObject extractor source) = Inr ()) = synthesisPreconditions vue"
    using assms by (rule classToObject_ok)
  moreover have "\<exists>e. fst (classToObject extractor source) = Inl e"
    if "\<not> synthesisPreconditions vue"
    using that iff by (cases "fst (classToObject extractor source)") auto
  ultimately show ?thesis by blast
qed

theorem synthesis_total_iff_preconditions_witness:
  "(\<lambda>s. Some exampleVue) exampleSource = Some exampleVue
   \<and> synthesisPreconditions exampleVue
   \<and> fst (classToObject (\<lambda>s. Some exampleVue) exampleSource) = Inr ()
   \<and> (\<lambda>s. Some namelessVue) exampleSource = Some namelessVue
   \<and> \<not> synthesisPreconditions namelessVue
   \<and> fst (classToObject (\<lambda>s. Some namelessVue) exampleSource) = Inl NameMissing
   \<and> (\<lambda>s. Some untypedVue) exampleSource = Some untypedVue
   \<and> \<not> synthesisPreconditions untypedVue
   \<and> fst (classToObject (\<lambda>s. Some untypedVue) exampleSource) = Inl TypeNodeMissing"
proof -
  have a: "(\<lambda>s. Some exampleVue) exampleSource = Some exampleVue"
    and b: "(\<lambda>s. Some namelessVue) exampleSource = Some namelessVue"
    and c: "(\<lambda>s. Some untypedVue) exampleSource = Some untypedVue"
    by simp_all
  have pa: "synthesisPreconditions exampleVue"
    by (simp add: synthesisPreconditions_def propPrecondition_def example_defs
        isString_def isNumber_def isBoolean_def)
  have pb: "\<not> synthesisPreconditions namelessVue"
    by (simp add: synthesisPreconditions_def namelessVue_def)
  have pc: "\<not> synthesisPreconditions untypedVue"
    by (simp add: synthesisPreconditions_def propPrecondition_def untypedVue_def
        isString_def isNumber_def isBoolean_def)
  have ra: "fst (classToObject (\<lambda>s. Some exampleVue) exampleSource) = Inr ()"
    using synthesis_total_iff_preconditions [OF a] pa by simp
  have rb: "fst (classToObject (\<lambda>s. Some namelessVue) exampleSource) = Inl NameMissing"
    by (simp add: synth_defs namelessVue_def)
  have rc: "fst (classToObject (\<lambda>s. Some untypedVue) exampleSource) = Inl TypeNodeMissing"
    by (simp add: synth_defs untypedVue_def)
  from a pa ra b pb rb c pc rc show ?thesis by (intro conjI)
qed

end
